theory Spec2Isabelle
  imports Complex_Main
begin

section \<open>Data model of itkPhaseCorrelationOperator.hxx\<close>

text \<open>
  The operator is a template over \<open>TRealPixel\<close> and \<open>VImageDimension\<close>.
  \<open>PixelType\<close> is the floating-point type \<open>TRealPixel\<close>. The arithmetic of the kernel
  is modelled on the real numbers: every operation is exact, and rounding, overflow,
  underflow, infinities and NaN are outside the model of the kernel.
  \<open>ComplexType\<close> is \<open>std::complex<PixelType>\<close>. An \<open>IndexType\<close> holds one signed
  \<open>IndexValueType\<close> per axis and a \<open>SizeType\<close> one unsigned \<open>SizeValueType\<close> per axis;
  both integer types are declared by the image library, outside this file, and are
  modelled by \<open>int\<close> and \<open>nat\<close>, that is for values whose products stay representable.
  \<open>VImageDimension\<close> is the length of these lists; axis 0 is the head.
\<close>

type_synonym PixelType = real
type_synonym ComplexType = complex
type_synonym IndexValueType = int
type_synonym SizeValueType = nat
type_synonym IndexType = "IndexValueType list"
type_synonym SizeType = "SizeValueType list"
type_synonym SpacingType = "real list"

text \<open>
  The setter of the control points only compares and stores its argument, and a caller
  can pass any value of the floating-point type. \<open>PixelValue\<close> is such a value as a
  comparison sees it: a number (the two zeros are one number), an infinity, or NaN.
  A comparison with NaN on either side is false, \<open>!=\<close> is the negation of \<open>==\<close>.
\<close>

datatype PixelValue = Finite real | PlusInfinity | MinusInfinity | NaN

fun FloatLess :: "PixelValue \<Rightarrow> PixelValue \<Rightarrow> bool" where
  "FloatLess NaN b = False"
| "FloatLess a NaN = False"
| "FloatLess (Finite x) (Finite y) = (x < y)"
| "FloatLess MinusInfinity MinusInfinity = False"
| "FloatLess MinusInfinity b = True"
| "FloatLess a MinusInfinity = False"
| "FloatLess PlusInfinity b = False"
| "FloatLess a PlusInfinity = True"

definition FloatEqual :: "PixelValue \<Rightarrow> PixelValue \<Rightarrow> bool" where
  "FloatEqual a b = (a \<noteq> NaN \<and> b \<noteq> NaN \<and> a = b)"

definition FloatGreater :: "PixelValue \<Rightarrow> PixelValue \<Rightarrow> bool" where
  "FloatGreater a b = FloatLess b a"

definition FloatGreaterEqual :: "PixelValue \<Rightarrow> PixelValue \<Rightarrow> bool" where
  "FloatGreaterEqual a b = (FloatLess b a \<or> FloatEqual a b)"

text \<open>
  \<open>BandPassPointsType\<close> is a fixed array of four \<open>PixelType\<close> values, as the setter
  receives and stores it. The \<open>!=\<close> of the array type compares element by element:
  two arrays are equal when every pair of elements is.
\<close>

type_synonym BandPassPointsType = "PixelValue \<times> PixelValue \<times> PixelValue \<times> PixelValue"

definition ArrayNotEqual :: "BandPassPointsType \<Rightarrow> BandPassPointsType \<Rightarrow> bool" where
  "ArrayNotEqual a b =
     (case (a, b) of ((a0, a1, a2, a3), (b0, b1, b2, b3)) \<Rightarrow>
        \<not> (FloatEqual a0 b0 \<and> FloatEqual a1 b1 \<and> FloatEqual a2 b2 \<and> FloatEqual a3 b3))"

text \<open>
  The kernel multiplies the four stored values by \<open>maxDist\<close> and computes with the
  products. \<open>ControlPointNumbers\<close> is a stored array of four numbers as the kernel's
  arithmetic takes it.
\<close>

type_synonym ControlPointNumbers = "PixelType \<times> PixelType \<times> PixelType \<times> PixelType"

record ImageRegion =
  GetIndex :: IndexType
  GetSize :: SizeType

text \<open>
  An image as the operator sees it: its spacing, its largest possible region and its
  pixel buffer, read and written by index.
\<close>

record Image =
  GetSpacing :: SpacingType
  GetLargestPossibleRegion :: ImageRegion
  Pixel :: "IndexType \<Rightarrow> ComplexType"

text \<open>
  The state of the operator that this file reads and writes: the stored control points
  and the modification time of the object, which \<open>Modified()\<close> advances.
\<close>

record PhaseCorrelationOperator =
  m_BandPassControlPoints :: BandPassPointsType
  m_MTime :: nat
  NumberOfRequiredInputs :: nat

text \<open>\<open>itkExceptionMacro(msg)\<close> throws an exception object carrying the message.\<close>

datatype ExceptionObject = ExceptionObject string

section \<open>Constructor and configuration\<close>

text \<open>
  The constructor (lines 39-48). The modification time the object starts with is set by
  the base class and is a parameter here. A decimal literal stands for the
  floating-point number nearest to it; the four literals are in the same order as
  their nearest floating-point numbers.
\<close>

definition PhaseCorrelationOperator_ctor :: "nat \<Rightarrow> PhaseCorrelationOperator" where
  "PhaseCorrelationOperator_ctor t0 =
     \<lparr> m_BandPassControlPoints =
         (Finite (5 / 100), Finite (1 / 10), Finite (5 / 10), Finite (9 / 10)),
       m_MTime = t0,
       NumberOfRequiredInputs = 2 \<rparr>"

text \<open>
  \<open>Modified()\<close> belongs to the base object of the image library: it gives the object a
  modification time later than every earlier one.
\<close>

definition Modified :: "PhaseCorrelationOperator \<Rightarrow> PhaseCorrelationOperator" where
  "Modified this = this\<lparr> m_MTime := Suc (m_MTime this) \<rparr>"

text \<open>
  \<open>SetBandPassControlPoints\<close> (lines 78-108). The result pairs the outcome of the call
  (the exception thrown, or normal return) with the state of the object when the call
  ends, so that a write before a throw would be visible.
\<close>

definition SetBandPassControlPoints ::
  "BandPassPointsType \<Rightarrow> PhaseCorrelationOperator
     \<Rightarrow> (ExceptionObject + unit) \<times> PhaseCorrelationOperator" where
  "SetBandPassControlPoints points this =
     (case points of (p0, p1, p2, p3) \<Rightarrow>
      if ArrayNotEqual (m_BandPassControlPoints this) points then
        if FloatLess p0 (Finite 0) then
          (Inl (ExceptionObject ''Control point 0 must be greater than or equal to 0.0!''), this)
        else if FloatGreater p3 (Finite 1) then
          (Inl (ExceptionObject ''Control point 3 must be less than or equal to 1.0!''), this)
        else if FloatGreaterEqual p0 p1 then
          (Inl (ExceptionObject ''Control point 0 must be strictly less than control point 1!''), this)
        else if FloatGreaterEqual p1 p2 then
          (Inl (ExceptionObject ''Control point 1 must be strictly less than control point 2!''), this)
        else if FloatGreaterEqual p2 p3 then
          (Inl (ExceptionObject ''Control point 2 must be strictly less than control point 3!''), this)
        else (Inr (), Modified (this\<lparr> m_BandPassControlPoints := points \<rparr>))
      else (Inr (), this))"

text \<open>
  The constraint the messages of the setter state, as one predicate:
  \<open>0 \<le> c0 < c1 < c2 < c3 \<le> 1\<close>, each comparison as the floating-point type has it.
\<close>

definition ValidControlPoints :: "BandPassPointsType \<Rightarrow> bool" where
  "ValidControlPoints points =
     (case points of (p0, p1, p2, p3) \<Rightarrow>
        FloatGreaterEqual p0 (Finite 0) \<and> FloatLess p0 p1 \<and> FloatLess p1 p2
        \<and> FloatLess p2 p3 \<and> FloatGreaterEqual (Finite 1) p3)"

section \<open>The per-sample kernel of DynamicThreadedGenerateData\<close>

text \<open>
  Lines 128-134: the reference radius, accumulated over the axes in a \<open>PixelType\<close>
  variable and then replaced by its square root.
\<close>

definition maxDist :: "SizeType \<Rightarrow> PixelType" where
  "maxDist sz =
     sqrt (fold (\<lambda>d acc. acc + real (sz ! d * sz ! d) / 4) [1..<length sz]
             (real (sz ! 0 * sz ! 0)))"

text \<open>
  Lines 153-157: the body of the loop over the higher axes, the distance \<open>dInd\<close> of
  one axis after the wrap-around.
\<close>

definition dInd :: "SizeValueType \<Rightarrow> IndexValueType \<Rightarrow> IndexValueType \<Rightarrow> IndexValueType" where
  "dInd size_d ind_d ind0_d =
     (let d = ind_d - ind0_d in
      if d \<ge> int (size_d div 2) then int size_d - (ind_d - ind0_d) else d)"

text \<open>Lines 149-160: the radius of the sample at index \<open>ind\<close>.\<close>

definition distFrom0 :: "SizeType \<Rightarrow> IndexType \<Rightarrow> IndexType \<Rightarrow> PixelType" where
  "distFrom0 sz ind0 ind =
     sqrt (fold (\<lambda>d acc. acc + real_of_int (dInd (sz ! d) (ind ! d) (ind0 ! d)
                                              * dInd (sz ! d) (ind ! d) (ind0 ! d)))
             [1..<length sz]
             (real_of_int ((ind ! 0 - ind0 ! 0) * (ind ! 0 - ind0 ! 0))))"

text \<open>
  Lines 169-189: the band-pass factor from the radius and the control points scaled by
  \<open>maxDist\<close>, with the two reciprocals computed once before the loop (lines 139-140).
\<close>

definition factor :: "PixelType \<Rightarrow> PixelType \<Rightarrow> PixelType \<Rightarrow> PixelType \<Rightarrow> PixelType \<Rightarrow> PixelType" where
  "factor c0 c1 c2 c3 r =
     (let oneOverC1minusC0 = 1 / (c1 - c0);
          oneOverC3minusC2 = 1 / (c3 - c2)
      in if r < c0 then 0
         else if r \<ge> c0 \<and> r < c1 then (r - c0) * oneOverC1minusC0
         else if r \<ge> c1 \<and> r \<le> c2 then 1
         else if r > c2 \<and> r \<le> c3 then (c3 - r) * oneOverC3minusC2
         else 0)"

text \<open>Lines 163-167: the cross term of the two samples and its magnitude.\<close>

definition cross_real :: "ComplexType \<Rightarrow> ComplexType \<Rightarrow> PixelType" where
  "cross_real f m = Re f * Re m + Im f * Im m"

definition cross_imag :: "ComplexType \<Rightarrow> ComplexType \<Rightarrow> PixelType" where
  "cross_imag f m = Im f * Re m - Re f * Im m"

definition magn :: "ComplexType \<Rightarrow> ComplexType \<Rightarrow> PixelType" where
  "magn f m = sqrt (cross_real f m * cross_real f m + cross_imag f m * cross_imag f m)"

text \<open>Lines 191-198: the value written for a sample, given its band-pass factor.\<close>

definition OutputValue :: "PixelType \<Rightarrow> ComplexType \<Rightarrow> ComplexType \<Rightarrow> ComplexType" where
  "OutputValue fac f m =
     (if magn f m \<noteq> 0
      then Complex (fac * cross_real f m / magn f m) (fac * cross_imag f m / magn f m)
      else Complex 0 0)"

text \<open>
  The factor of the sample at \<open>ind\<close>: lines 135-138 scale the four stored numbers by
  \<open>maxDist\<close>, lines 169-189 select the branch.
\<close>

definition SampleFactor :: "ControlPointNumbers \<Rightarrow> SizeType \<Rightarrow> IndexType \<Rightarrow> IndexType \<Rightarrow> PixelType" where
  "SampleFactor points sz ind0 ind =
     (case points of (p0, p1, p2, p3) \<Rightarrow>
        factor (p0 * maxDist sz) (p1 * maxDist sz) (p2 * maxDist sz) (p3 * maxDist sz)
          (distFrom0 sz ind0 ind))"

text \<open>
  Lines 149-198, the whole body of the inner loop: the value the kernel writes at
  \<open>ind\<close>, from the four stored numbers, the size and start index of the output's
  largest possible region, and the two input samples at \<open>ind\<close>.
\<close>

definition Kernel ::
  "ControlPointNumbers \<Rightarrow> SizeType \<Rightarrow> IndexType \<Rightarrow> IndexType \<Rightarrow> ComplexType \<Rightarrow> ComplexType
     \<Rightarrow> ComplexType" where
  "Kernel points sz ind0 ind f m = OutputValue (SampleFactor points sz ind0 ind) f m"

section \<open>Walking a region\<close>

text \<open>
  The scanline iterators of the image library walk a region line by line: axis 0 runs
  fastest, a line is the run of samples that differ on axis 0 only. \<open>Span i n\<close> is the
  run of \<open>n\<close> index values from \<open>i\<close>; \<open>HigherIndices\<close> lists the index tuples of the axes
  above 0 in walking order; \<open>ScanLines\<close> lists the lines of a region.
\<close>

definition Span :: "IndexValueType \<Rightarrow> SizeValueType \<Rightarrow> IndexValueType list" where
  "Span i n = map (\<lambda>j. i + int j) [0..<n]"

fun HigherIndices :: "IndexType \<Rightarrow> SizeType \<Rightarrow> IndexType list" where
  "HigherIndices [] [] = [[]]"
| "HigherIndices (i # is) (n # ns) =
     concat (map (\<lambda>rest. map (\<lambda>x. x # rest) (Span i n)) (HigherIndices is ns))"
| "HigherIndices _ _ = []"

fun ScanLines :: "ImageRegion \<Rightarrow> IndexType list list" where
  "ScanLines region =
     (case (GetIndex region, GetSize region) of
        (i # is, n # ns) \<Rightarrow> map (\<lambda>rest. map (\<lambda>x. x # rest) (Span i n)) (HigherIndices is ns)
      | _ \<Rightarrow> [])"

text \<open>The indices of a region, in the order the iterators visit them.\<close>

definition RegionIndices :: "ImageRegion \<Rightarrow> IndexType list" where
  "RegionIndices region = concat (ScanLines region)"

text \<open>\<open>outIt.Set(v)\<close> at index \<open>ind\<close>: one element of the output buffer is overwritten.\<close>

definition SetPixel :: "Image \<Rightarrow> IndexType \<Rightarrow> ComplexType \<Rightarrow> Image" where
  "SetPixel img ind v = img\<lparr> Pixel := (Pixel img)(ind := v) \<rparr>"

text \<open>
  \<open>DynamicThreadedGenerateData\<close> (lines 111-208): the outer loop runs over the lines of
  the thread's region, the inner loop over the samples of a line; the three iterators
  move together, so the inputs are read at the index that is written. The only member
  of the object that the function reads is the array of control points; \<open>points\<close> is
  that array, for an object that stores four numbers.
\<close>

definition DynamicThreadedGenerateData ::
  "ControlPointNumbers \<Rightarrow> Image \<Rightarrow> Image \<Rightarrow> ImageRegion \<Rightarrow> Image \<Rightarrow> Image" where
  "DynamicThreadedGenerateData points fixed moving outputRegionForThread output =
     (let sz = GetSize (GetLargestPossibleRegion output);
          ind0 = GetIndex (GetLargestPossibleRegion output)
      in fold (\<lambda>line out.
                 fold (\<lambda>ind out'.
                         SetPixel out' ind
                           (Kernel points sz ind0 ind (Pixel fixed ind) (Pixel moving ind)))
                      line out)
              (ScanLines outputRegionForThread) output)"

text \<open>
  The threaded driver of the image library calls \<open>DynamicThreadedGenerateData\<close> once for
  each sub-region of a split of the output region. \<open>GenerateRegions\<close> runs these calls
  one after the other in the order of the list; the list is the split and its order the
  order of evaluation.
\<close>

definition GenerateRegions ::
  "ControlPointNumbers \<Rightarrow> Image \<Rightarrow> Image \<Rightarrow> ImageRegion list \<Rightarrow> Image \<Rightarrow> Image" where
  "GenerateRegions points fixed moving regions output =
     fold (DynamicThreadedGenerateData points fixed moving) regions output"

text \<open>
  A list of regions splits a region when the walks of its members visit every index of
  the region, no index twice and no index outside.
\<close>

definition SplitsRegion :: "ImageRegion \<Rightarrow> ImageRegion list \<Rightarrow> bool" where
  "SplitsRegion region parts =
     (distinct (concat (map RegionIndices parts))
      \<and> set (concat (map RegionIndices parts)) = set (RegionIndices region))"

section \<open>Output geometry\<close>

text \<open>
  Modelled from the spec: the body of the hook \<open>AdjustOutputInformation\<close>, which takes
  the three arrays by reference and is written in the class header
  itkPhaseCorrelationOperator.h, not in the .hxx file embedded here. The spec gives the
  output geometry as the values the loop computes, so the hook of this class changes
  none of its arguments.
\<close>

definition AdjustOutputInformation ::
  "SpacingType \<times> IndexType \<times> SizeType \<Rightarrow> SpacingType \<times> IndexType \<times> SizeType" where
  "AdjustOutputInformation g = g"

text \<open>
  \<open>GenerateOutputInformation\<close> (lines 237-324), the part that sets spacing and largest
  possible region; a null pointer is \<open>None\<close>. Line 248 calls the implementation of the
  superclass, which belongs to the image library and writes to the output object; it is
  the parameter \<open>superclass\<close>, a function of the two inputs and the output object. It runs
  before the null test of line 255, so with a null input the function returns the output
  as the superclass left it. The three local arrays are written at each axis
  \<open>i < ImageDimension\<close> once, so each is the list of the values written. The hook is a
  parameter. The metadata entry written by lines 304-323 is not part of the model.
\<close>

definition GenerateOutputInformation ::
  "(Image option \<Rightarrow> Image option \<Rightarrow> Image \<Rightarrow> Image)
     \<Rightarrow> (SpacingType \<times> IndexType \<times> SizeType \<Rightarrow> SpacingType \<times> IndexType \<times> SizeType)
     \<Rightarrow> nat \<Rightarrow> Image option \<Rightarrow> Image option \<Rightarrow> Image option \<Rightarrow> Image option" where
  "GenerateOutputInformation superclass adjust ImageDimension fixed moving output =
     (case (fixed, moving, map_option (superclass fixed moving) output) of
        (Some fx, Some mv, Some out) \<Rightarrow>
          (let fixedSpacing = GetSpacing fx;
               movingSpacing = GetSpacing mv;
               fixedSize = GetSize (GetLargestPossibleRegion fx);
               movingSize = GetSize (GetLargestPossibleRegion mv);
               fixedStartIndex = GetIndex (GetLargestPossibleRegion fx);
               outputSpacing = map (\<lambda>i. if fixedSpacing ! i \<ge> movingSpacing ! i
                                          then fixedSpacing ! i else movingSpacing ! i)
                                   [0..<ImageDimension];
               outputSize = map (\<lambda>i. if fixedSize ! i \<le> movingSize ! i
                                       then fixedSize ! i else movingSize ! i)
                                [0..<ImageDimension];
               outputStartIndex = map (\<lambda>i. fixedStartIndex ! i) [0..<ImageDimension]
           in case adjust (outputSpacing, outputStartIndex, outputSize) of
                (outputSpacing', outputStartIndex', outputSize') \<Rightarrow>
                  Some (out\<lparr> GetSpacing := outputSpacing',
                             GetLargestPossibleRegion :=
                               \<lparr> GetIndex = outputStartIndex', GetSize = outputSize' \<rparr> \<rparr>))
      | _ \<Rightarrow> map_option (superclass fixed moving) output)"

section \<open>Evaluation of index ranges\<close>

lemmas upt_to_2 = upt_rec [of 0 2] upt_rec [of 1 2] upt_rec [of "Suc 0" 2] upt_rec [of 2 2]

lemmas upt_to_3 = upt_rec [of 1 3] upt_rec [of "Suc 0" 3] upt_rec [of 2 3] upt_rec [of 3 3]

section \<open>The wrap-around of the higher axes\<close>

text \<open>
  Where the fold of one axis is symmetric: for an offset \<open>raw\<close> with \<open>0 < raw < n\<close> the
  offsets \<open>raw\<close> and \<open>n - raw\<close> get the same distance, unless \<open>n\<close> is odd and \<open>raw\<close> is
  one of the two offsets next to \<open>n / 2\<close>; there the two distances are swapped.
\<close>

lemma dInd_mirror:
  assumes "0 < raw" and "raw < int n"
  shows "dInd n raw 0 = dInd n (int n - raw) 0
           \<longleftrightarrow> even n \<or> (raw \<noteq> int (n div 2) \<and> raw \<noteq> int (n div 2) + 1)"
proof -
  obtain h where h: "n = 2 * h \<or> n = 2 * h + 1"
    by (metis Suc_eq_plus1 add.commute oddE evenE)
  from h show ?thesis
  proof
    assume "n = 2 * h"
    then show ?thesis using assms by (simp add: dInd_def Let_def)
  next
    assume "n = 2 * h + 1"
    then show ?thesis using assms by (simp add: dInd_def Let_def) arith
  qed
qed

text \<open>
  Claim C1 (wrap symmetry of the radius on an axis \<open>k > 0\<close>), evaluated on the code: in
  an output of size \<open>(2, 3)\<close> starting at \<open>(0, 0)\<close> the samples at \<open>(0, 1)\<close> and \<open>(0, 2)\<close>
  have the offsets \<open>raw = 1\<close> and \<open>size[1] - raw = 2\<close> on axis 1. The fold gives them
  the distances 2 and 1, and the radii 2 and 1: they differ.
\<close>

theorem distFrom0_wrap_odd_size:
  "dInd 3 1 0 = 2 \<and> dInd 3 (3 - 1) 0 = 1
   \<and> distFrom0 [2, 3] [0, 0] [0, 1] = 2
   \<and> distFrom0 [2, 3] [0, 0] [0, 3 - 1] = 1
   \<and> distFrom0 [2, 3] [0, 0] [0, 1] \<noteq> distFrom0 [2, 3] [0, 0] [0, 3 - 1]"
  by (simp add: dInd_def distFrom0_def upt_to_2)

text \<open>
  Claim C2 (the radius of every sample of the output region is at most \<open>maxDist\<close>),
  evaluated on the code: in an output of size \<open>(2, 3, 3)\<close> starting at \<open>(0, 0, 0)\<close> the
  sample at \<open>(1, 1, 1)\<close> has the radius \<open>sqrt (1 + 4 + 4) = 3\<close>, and \<open>maxDist\<close> is
  \<open>sqrt (4 + 9/4 + 9/4) = sqrt (17/2)\<close>, which is less than 3.
\<close>

theorem distFrom0_exceeds_maxDist:
  "distFrom0 [2, 3, 3] [0, 0, 0] [1, 1, 1] = 3
   \<and> maxDist [2, 3, 3] = sqrt (17 / 2)
   \<and> maxDist [2, 3, 3] < distFrom0 [2, 3, 3] [0, 0, 0] [1, 1, 1]"
proof -
  have d: "distFrom0 [2, 3, 3] [0, 0, 0] [1, 1, 1] = sqrt 9"
    by (simp add: dInd_def distFrom0_def upt_to_3)
  have "sqrt 9 = sqrt (3\<^sup>2)" by simp
  then have d3: "distFrom0 [2, 3, 3] [0, 0, 0] [1, 1, 1] = 3"
    using d by (simp del: real_sqrt_four)
  have m: "maxDist [2, 3, 3] = sqrt (17 / 2)"
    by (simp add: maxDist_def upt_to_3)
  have "sqrt (17 / 2) < sqrt 9" by (simp only: real_sqrt_less_iff)
  then show ?thesis using d d3 m by simp
qed

section \<open>The band-pass factor\<close>



section \<open>What a walk over regions writes\<close>

lemma fold_SetPixel:
  "fold (\<lambda>ind out. SetPixel out ind (g ind)) xs outp
     = outp\<lparr> Pixel := (\<lambda>i. if i \<in> set xs then g i else Pixel outp i) \<rparr>"
proof (induction xs arbitrary: outp)
  case Nil
  show ?case by simp
next
  case (Cons x xs)
  have h: "(\<lambda>i. if i \<in> set xs then g i else Pixel (SetPixel outp x (g x)) i)
          = (\<lambda>i. if i \<in> set (x # xs) then g i else Pixel outp i)"
    by (auto simp add: SetPixel_def fun_eq_iff)
  have "fold (\<lambda>ind out. SetPixel out ind (g ind)) (x # xs) outp
          = fold (\<lambda>ind out. SetPixel out ind (g ind)) xs (SetPixel outp x (g x))"
    by simp
  also have "\<dots> = (SetPixel outp x (g x))
                      \<lparr> Pixel := (\<lambda>i. if i \<in> set xs then g i
                                      else Pixel (SetPixel outp x (g x)) i) \<rparr>"
    by (rule Cons.IH)
  also have "\<dots> = outp\<lparr> Pixel := (\<lambda>i. if i \<in> set (x # xs) then g i else Pixel outp i) \<rparr>"
    unfolding h by (simp add: SetPixel_def)
  finally show ?case .
qed

lemma fold_lines:
  "fold (\<lambda>line out. fold f line out) lines outp = fold f (concat lines) outp"
  by (induction lines arbitrary: outp) simp_all

text \<open>
  One call writes the kernel's value at each index of its region and nothing else; the
  geometry of the output stays as it is.
\<close>

lemma DynamicThreadedGenerateData_eq:
  "DynamicThreadedGenerateData points fixed moving region outp
     = outp\<lparr> Pixel := (\<lambda>i. if i \<in> set (RegionIndices region)
                              then Kernel points
                                     (GetSize (GetLargestPossibleRegion outp))
                                     (GetIndex (GetLargestPossibleRegion outp)) i
                                     (Pixel fixed i) (Pixel moving i)
                              else Pixel outp i) \<rparr>"
  unfolding DynamicThreadedGenerateData_def Let_def RegionIndices_def fold_lines
  by (rule fold_SetPixel)

lemma GenerateRegions_eq:
  "GenerateRegions points fixed moving regions outp
     = outp\<lparr> Pixel := (\<lambda>i. if i \<in> set (concat (map RegionIndices regions))
                              then Kernel points
                                     (GetSize (GetLargestPossibleRegion outp))
                                     (GetIndex (GetLargestPossibleRegion outp)) i
                                     (Pixel fixed i) (Pixel moving i)
                              else Pixel outp i) \<rparr>"
proof (induction regions arbitrary: outp)
  case Nil
  show ?case by (simp add: GenerateRegions_def)
next
  case (Cons r rs)
  define K where "K = (\<lambda>i. Kernel points
                              (GetSize (GetLargestPossibleRegion outp))
                              (GetIndex (GetLargestPossibleRegion outp)) i
                              (Pixel fixed i) (Pixel moving i))"
  define mid where "mid = DynamicThreadedGenerateData points fixed moving r outp"
  have mid_eq: "mid = outp\<lparr> Pixel := (\<lambda>i. if i \<in> set (RegionIndices r) then K i
                                           else Pixel outp i) \<rparr>"
    unfolding mid_def K_def by (rule DynamicThreadedGenerateData_eq)
  have geo: "GetLargestPossibleRegion mid = GetLargestPossibleRegion outp"
    by (simp add: mid_eq)
  have h: "(\<lambda>i. if i \<in> set (concat (map RegionIndices rs)) then K i else Pixel mid i)
             = (\<lambda>i. if i \<in> set (concat (map RegionIndices (r # rs))) then K i
                    else Pixel outp i)"
    by (auto simp add: mid_eq fun_eq_iff)
  have "GenerateRegions points fixed moving (r # rs) outp
          = GenerateRegions points fixed moving rs mid"
    by (simp add: GenerateRegions_def mid_def)
  also have "\<dots> = mid\<lparr> Pixel := (\<lambda>i. if i \<in> set (concat (map RegionIndices rs)) then K i
                                        else Pixel mid i) \<rparr>"
    unfolding K_def geo [symmetric] by (rule Cons.IH)
  also have "\<dots> = outp\<lparr> Pixel := (\<lambda>i. if i \<in> set (concat (map RegionIndices (r # rs)))
                                         then K i else Pixel outp i) \<rparr>"
    unfolding h by (simp add: mid_eq)
  finally show ?case unfolding K_def .
qed

lemma DynamicThreadedGenerateData_written:
  assumes "ind \<in> set (RegionIndices region)"
  shows "Pixel (DynamicThreadedGenerateData points fixed moving region outp) ind
           = Kernel points
               (GetSize (GetLargestPossibleRegion outp))
               (GetIndex (GetLargestPossibleRegion outp)) ind
               (Pixel fixed ind) (Pixel moving ind)"
  using assms by (simp add: DynamicThreadedGenerateData_eq)

section \<open>Zero magnitude\<close>

lemma magn_zero_sample: "f = Complex 0 0 \<or> m = Complex 0 0 \<Longrightarrow> magn f m = 0"
  by (auto simp add: magn_def cross_real_def cross_imag_def)

lemma Kernel_magn_zero: "magn f m = 0 \<Longrightarrow> Kernel points sz ind0 ind f m = Complex 0 0"
  by (simp add: Kernel_def OutputValue_def)

text \<open>
  Claim C4: where the magnitude of the cross term is zero, and so wherever the fixed or
  the moving sample is \<open>0 + 0i\<close>, the kernel's value is \<open>(0, 0)\<close> whatever the control
  points, the geometry and the index are, and that value is what a call stores at the
  index. The kernel returns a sample in every case; it has no failing branch.
\<close>

theorem Kernel_zero_magnitude:
  "(magn f m = 0 \<longrightarrow> Kernel points sz ind0 ind f m = Complex 0 0)
   \<and> (f = Complex 0 0 \<or> m = Complex 0 0
        \<longrightarrow> magn f m = 0 \<and> Kernel points sz ind0 ind f m = Complex 0 0)
   \<and> (ind \<in> set (RegionIndices region) \<and> magn (Pixel fixed ind) (Pixel moving ind) = 0
        \<longrightarrow> Pixel (DynamicThreadedGenerateData points fixed moving region outp) ind
              = Complex 0 0)"
  using Kernel_magn_zero magn_zero_sample DynamicThreadedGenerateData_written by simp

theorem Kernel_zero_magnitude_witness:
  "magn (Complex 0 0) (Complex 3 4) = 0
   \<and> Kernel (5/100, 1/10, 5/10, 9/10) [8, 8] [0, 0] [2, 1] (Complex 0 0) (Complex 3 4)
       = Complex 0 0
   \<and> Kernel (5/100, 1/10, 5/10, 9/10) [8, 8] [0, 0] [2, 1] (Complex 3 4) (Complex 0 0)
       = Complex 0 0"
  using Kernel_zero_magnitude [of "Complex 0 0" "Complex 3 4" "(5/100, 1/10, 5/10, 9/10)"
          "[8, 8]" "[0, 0]" "[2, 1]"]
        Kernel_zero_magnitude [of "Complex 3 4" "Complex 0 0" "(5/100, 1/10, 5/10, 9/10)"
          "[8, 8]" "[0, 0]" "[2, 1]"]
  by simp

section \<open>Output geometry\<close>

text \<open>
  Claim C5: for two inputs of the same dimension \<open>n\<close>, and whatever the superclass has
  written to the output before, the call sets, on every axis
  \<open>k < n\<close>, the output spacing to the larger of the two spacings and the output size to
  the smaller of the two sizes, and the output start index to the fixed input's start
  index. For fixed size \<open>(64, 64)\<close>, spacing \<open>(1, 1)\<close> and moving size \<open>(32, 64)\<close>, spacing
  \<open>(2, 1)\<close> the output has size \<open>(32, 64)\<close>, spacing \<open>(2, 1)\<close> and the fixed input's
  start index.
\<close>

theorem GenerateOutputInformation_geometry:
  "(length (GetSpacing fx) = n \<and> length (GetSpacing mv) = n
    \<and> length (GetSize (GetLargestPossibleRegion fx)) = n
    \<and> length (GetSize (GetLargestPossibleRegion mv)) = n
    \<and> length (GetIndex (GetLargestPossibleRegion fx)) = n
    \<longrightarrow> (\<exists>out'. GenerateOutputInformation superclass AdjustOutputInformation n
                     (Some fx) (Some mv) (Some outp) = Some out'
           \<and> length (GetSpacing out') = n
           \<and> length (GetSize (GetLargestPossibleRegion out')) = n
           \<and> (\<forall>k < n. GetSpacing out' ! k = max (GetSpacing fx ! k) (GetSpacing mv ! k)
                  \<and> GetSize (GetLargestPossibleRegion out') ! k
                      = min (GetSize (GetLargestPossibleRegion fx) ! k)
                            (GetSize (GetLargestPossibleRegion mv) ! k)
                  \<and> GetIndex (GetLargestPossibleRegion out') ! k
                      = GetIndex (GetLargestPossibleRegion fx) ! k)
           \<and> GetIndex (GetLargestPossibleRegion out') = GetIndex (GetLargestPossibleRegion fx)))
   \<and> (\<exists>out'. GenerateOutputInformation superclass AdjustOutputInformation 2
         (Some \<lparr> GetSpacing = [1, 1],
                 GetLargestPossibleRegion = \<lparr> GetIndex = [i0, i1], GetSize = [64, 64] \<rparr>,
                 Pixel = p \<rparr>)
         (Some \<lparr> GetSpacing = [2, 1],
                 GetLargestPossibleRegion = \<lparr> GetIndex = [j0, j1], GetSize = [32, 64] \<rparr>,
                 Pixel = q \<rparr>)
         (Some outp) = Some out'
       \<and> GetSpacing out' = [2, 1]
       \<and> GetSize (GetLargestPossibleRegion out') = [32, 64]
       \<and> GetIndex (GetLargestPossibleRegion out') = [i0, i1])"
proof -
  have general: "\<exists>out'. GenerateOutputInformation superclass AdjustOutputInformation n
                     (Some fx) (Some mv) (Some outp) = Some out'
           \<and> length (GetSpacing out') = n
           \<and> length (GetSize (GetLargestPossibleRegion out')) = n
           \<and> (\<forall>k < n. GetSpacing out' ! k = max (GetSpacing fx ! k) (GetSpacing mv ! k)
                  \<and> GetSize (GetLargestPossibleRegion out') ! k
                      = min (GetSize (GetLargestPossibleRegion fx) ! k)
                            (GetSize (GetLargestPossibleRegion mv) ! k)
                  \<and> GetIndex (GetLargestPossibleRegion out') ! k
                      = GetIndex (GetLargestPossibleRegion fx) ! k)
           \<and> GetIndex (GetLargestPossibleRegion out') = GetIndex (GetLargestPossibleRegion fx)"
    if len: "length (GetIndex (GetLargestPossibleRegion fx)) = n"
  proof -
    have ix: "map (\<lambda>i. GetIndex (GetLargestPossibleRegion fx) ! i) [0..<n]
                = GetIndex (GetLargestPossibleRegion fx)"
      unfolding len [symmetric] by (rule map_nth)
    show ?thesis
      by (simp add: GenerateOutputInformation_def AdjustOutputInformation_def Let_def ix
            max_def min_def)
  qed
  have inst: "\<exists>out'. GenerateOutputInformation superclass AdjustOutputInformation 2
         (Some \<lparr> GetSpacing = [1, 1],
                 GetLargestPossibleRegion = \<lparr> GetIndex = [i0, i1], GetSize = [64, 64] \<rparr>,
                 Pixel = p \<rparr>)
         (Some \<lparr> GetSpacing = [2, 1],
                 GetLargestPossibleRegion = \<lparr> GetIndex = [j0, j1], GetSize = [32, 64] \<rparr>,
                 Pixel = q \<rparr>)
         (Some outp) = Some out'
       \<and> GetSpacing out' = [2, 1]
       \<and> GetSize (GetLargestPossibleRegion out') = [32, 64]
       \<and> GetIndex (GetLargestPossibleRegion out') = [i0, i1]"
    by (simp add: GenerateOutputInformation_def AdjustOutputInformation_def Let_def upt_to_2)
  show ?thesis using general inst by blast
qed

theorem GenerateOutputInformation_geometry_witness:
  "\<exists>out'. GenerateOutputInformation
       (\<lambda>fixed moving out. out\<lparr> GetSpacing := [9, 9],
                                  GetLargestPossibleRegion :=
                                    \<lparr> GetIndex = [7, - 3], GetSize = [5, 8] \<rparr> \<rparr>)
       AdjustOutputInformation 2
       (Some \<lparr> GetSpacing = [1, 3],
               GetLargestPossibleRegion = \<lparr> GetIndex = [7, - 3], GetSize = [5, 8] \<rparr>,
               Pixel = (\<lambda>i. Complex 1 0) \<rparr>)
       (Some \<lparr> GetSpacing = [2, 1],
               GetLargestPossibleRegion = \<lparr> GetIndex = [0, 0], GetSize = [9, 6] \<rparr>,
               Pixel = (\<lambda>i. Complex 0 1) \<rparr>)
       (Some \<lparr> GetSpacing = [], GetLargestPossibleRegion = \<lparr> GetIndex = [], GetSize = [] \<rparr>,
               Pixel = (\<lambda>i. Complex 0 0) \<rparr>) = Some out'
     \<and> GetSpacing out' ! 0 = 2 \<and> GetSpacing out' ! 1 = 3
     \<and> GetSize (GetLargestPossibleRegion out') ! 0 = 5
     \<and> GetSize (GetLargestPossibleRegion out') ! 1 = 6
     \<and> GetIndex (GetLargestPossibleRegion out') = [7, - 3]"
  using GenerateOutputInformation_geometry
    [where fx = "\<lparr> GetSpacing = [1, 3],
                   GetLargestPossibleRegion = \<lparr> GetIndex = [7, - 3], GetSize = [5, 8] \<rparr>,
                   Pixel = (\<lambda>i. Complex 1 0) \<rparr>"
       and n = 2
       and superclass = "\<lambda>fixed moving out. out\<lparr> GetSpacing := [9, 9],
                           GetLargestPossibleRegion :=
                             \<lparr> GetIndex = [7, - 3], GetSize = [5, 8] \<rparr> \<rparr>"
       and mv = "\<lparr> GetSpacing = [2, 1],
                   GetLargestPossibleRegion = \<lparr> GetIndex = [0, 0], GetSize = [9, 6] \<rparr>,
                   Pixel = (\<lambda>i. Complex 0 1) \<rparr>"
       and outp = "\<lparr> GetSpacing = [],
                     GetLargestPossibleRegion = \<lparr> GetIndex = [], GetSize = [] \<rparr>,
                     Pixel = (\<lambda>i. Complex 0 0) \<rparr>",
     THEN conjunct1]
  by (auto simp add: less_2_cases_iff)

section \<open>Configuration of the control points\<close>

text \<open>Every throw of the setter comes before the assignment of line 105.\<close>

lemma Set_fail_unchanged:
  "fst (SetBandPassControlPoints points this) = Inl e
   \<Longrightarrow> snd (SetBandPassControlPoints points this) = this"
  by (cases points) (auto simp add: SetBandPassControlPoints_def split: if_splits)

text \<open>
  A tuple that satisfies the constraint consists of four numbers, and on tuples of
  numbers the constraint is the one of the real numbers.
\<close>

lemma ValidControlPoints_Finite:
  "ValidControlPoints (Finite c0, Finite c1, Finite c2, Finite c3)
     \<longleftrightarrow> 0 \<le> c0 \<and> c0 < c1 \<and> c1 < c2 \<and> c2 < c3 \<and> c3 \<le> 1"
  by (auto simp add: ValidControlPoints_def FloatGreaterEqual_def FloatEqual_def)

lemma ValidControlPoints_numbers:
  assumes "ValidControlPoints (p0, p1, p2, p3)"
  shows "\<exists>c0 c1 c2 c3. p0 = Finite c0 \<and> p1 = Finite c1 \<and> p2 = Finite c2 \<and> p3 = Finite c3"
proof -
  have a: "FloatGreaterEqual p0 (Finite 0)" and b: "FloatLess p0 p1" and c: "FloatLess p1 p2"
    and d: "FloatLess p2 p3" and e: "FloatGreaterEqual (Finite 1) p3"
    using assms by (simp_all add: ValidControlPoints_def)
  obtain c0 where p0: "p0 = Finite c0 \<or> p0 = PlusInfinity"
    using a by (cases p0) (simp_all add: FloatGreaterEqual_def FloatEqual_def)
  obtain c3 where p3: "p3 = Finite c3 \<or> p3 = MinusInfinity"
    using e by (cases p3) (simp_all add: FloatGreaterEqual_def FloatEqual_def)
  have p2: "\<exists>c2. p2 = Finite c2"
    using d p3 b c p0 by (cases p2; cases p1) auto
  have p1: "\<exists>c1. p1 = Finite c1"
    using b c p0 p2 by (cases p1) auto
  have p0': "\<exists>c. p0 = Finite c" using b p0 p1 by auto
  have p3': "\<exists>c. p3 = Finite c" using d p3 p2 by auto
  show ?thesis using p0' p1 p2 p3' by blast
qed

text \<open>
  Claim C6 (the setter fails exactly when \<open>c0 < 0\<close>, or \<open>c3 > 1\<close>, or the tuple is not
  strictly increasing, and a failure leaves the stored configuration unchanged),
  evaluated on the code: on a new object the call with \<open>(0.5, NaN, 0.25, 0.75)\<close> takes
  none of the five throwing branches, since every comparison with NaN is false and
  \<open>0.25 \<ge> 0.75\<close> is false; it returns normally and stores the tuple, which is not strictly
  increasing: neither \<open>0.5 < NaN\<close> nor \<open>NaN < 0.25\<close> holds, and \<open>0.5 > 0.25\<close>.
\<close>

theorem SetBandPassControlPoints_NaN_stored:
  "fst (SetBandPassControlPoints (Finite (1/2), NaN, Finite (1/4), Finite (3/4))
          (PhaseCorrelationOperator_ctor 7)) = Inr ()
   \<and> m_BandPassControlPoints
       (snd (SetBandPassControlPoints (Finite (1/2), NaN, Finite (1/4), Finite (3/4))
               (PhaseCorrelationOperator_ctor 7)))
       = (Finite (1/2), NaN, Finite (1/4), Finite (3/4))
   \<and> \<not> FloatLess (Finite (1/2)) NaN \<and> \<not> FloatLess NaN (Finite (1/4))
   \<and> FloatLess (Finite (1/4)) (Finite (1/2))
   \<and> \<not> ValidControlPoints (Finite (1/2), NaN, Finite (1/4), Finite (3/4))"
  by (simp add: SetBandPassControlPoints_def PhaseCorrelationOperator_ctor_def Modified_def
        ArrayNotEqual_def FloatEqual_def FloatGreater_def FloatGreaterEqual_def
        ValidControlPoints_def)

text \<open>
  Claim C7, as the code has it: for every tuple with \<open>0 \<le> c0 < c1 < c2 < c3 \<le> 1\<close> the call
  returns normally and the stored tuple afterwards is the argument. When the argument
  differs from the tuple stored before, the modification time of the object advances;
  when it equals the tuple stored before, the call leaves the object as it is, with its
  modification time.
\<close>

theorem SetBandPassControlPoints_valid:
  assumes "0 \<le> c0" and "c0 < c1" and "c1 < c2" and "c2 < c3" and "c3 \<le> 1"
  shows "fst (SetBandPassControlPoints (Finite c0, Finite c1, Finite c2, Finite c3) this)
           = Inr ()
       \<and> m_BandPassControlPoints
           (snd (SetBandPassControlPoints (Finite c0, Finite c1, Finite c2, Finite c3) this))
           = (Finite c0, Finite c1, Finite c2, Finite c3)
       \<and> ((Finite c0, Finite c1, Finite c2, Finite c3) \<noteq> m_BandPassControlPoints this
            \<longrightarrow> m_MTime this
                  < m_MTime (snd (SetBandPassControlPoints
                                    (Finite c0, Finite c1, Finite c2, Finite c3) this)))
       \<and> ((Finite c0, Finite c1, Finite c2, Finite c3) = m_BandPassControlPoints this
            \<longrightarrow> snd (SetBandPassControlPoints
                       (Finite c0, Finite c1, Finite c2, Finite c3) this) = this)"
proof -
  define P where "P = (Finite c0, Finite c1, Finite c2, Finite c3)"
  have ne: "ArrayNotEqual (m_BandPassControlPoints this) P \<longleftrightarrow> P \<noteq> m_BandPassControlPoints this"
    unfolding P_def
    by (cases "m_BandPassControlPoints this") (auto simp add: ArrayNotEqual_def FloatEqual_def)
  have res: "SetBandPassControlPoints P this
               = (if P \<noteq> m_BandPassControlPoints this
                  then (Inr (), Modified (this\<lparr> m_BandPassControlPoints := P \<rparr>))
                  else (Inr (), this))"
    using assms ne
    by (simp add: SetBandPassControlPoints_def P_def FloatGreater_def FloatGreaterEqual_def
          FloatEqual_def)
  have stored: "m_BandPassControlPoints (snd (SetBandPassControlPoints P this)) = P"
  proof (cases "P = m_BandPassControlPoints this")
    case True
    then show ?thesis unfolding res by simp
  next
    case False
    then show ?thesis unfolding res by (simp add: Modified_def)
  qed
  have "fst (SetBandPassControlPoints P this) = Inr ()
        \<and> m_BandPassControlPoints (snd (SetBandPassControlPoints P this)) = P
        \<and> (P \<noteq> m_BandPassControlPoints this
             \<longrightarrow> m_MTime this < m_MTime (snd (SetBandPassControlPoints P this)))
        \<and> (P = m_BandPassControlPoints this \<longrightarrow> snd (SetBandPassControlPoints P this) = this)"
    using stored unfolding res by (simp add: Modified_def)
  then show ?thesis unfolding P_def .
qed

theorem SetBandPassControlPoints_valid_witness:
  "fst (SetBandPassControlPoints (Finite 0, Finite (1/4), Finite (1/2), Finite 1)
          (PhaseCorrelationOperator_ctor 7)) = Inr ()
   \<and> m_BandPassControlPoints
       (snd (SetBandPassControlPoints (Finite 0, Finite (1/4), Finite (1/2), Finite 1)
               (PhaseCorrelationOperator_ctor 7)))
       = (Finite 0, Finite (1/4), Finite (1/2), Finite 1)
   \<and> 7 < m_MTime (snd (SetBandPassControlPoints (Finite 0, Finite (1/4), Finite (1/2), Finite 1)
                         (PhaseCorrelationOperator_ctor 7)))"
  using SetBandPassControlPoints_valid [of 0 "1/4" "1/2" 1 "PhaseCorrelationOperator_ctor 7"]
  by (simp add: PhaseCorrelationOperator_ctor_def)

text \<open>
  Claim C7 as stated fails: the tuple \<open>(0.05, 0.1, 0.5, 0.9)\<close> is valid and is the tuple
  the constructor stores; setting it on a new object returns normally, and the
  modification time does not advance.
\<close>

theorem SetBandPassControlPoints_same_tuple:
  "0 \<le> (5/100::real) \<and> (5/100::real) < 1/10 \<and> (1/10::real) < 5/10
   \<and> (5/10::real) < 9/10 \<and> (9/10::real) \<le> 1
   \<and> fst (SetBandPassControlPoints
            (Finite (5/100), Finite (1/10), Finite (5/10), Finite (9/10))
            (PhaseCorrelationOperator_ctor 7))
       = Inr ()
   \<and> \<not> m_MTime (PhaseCorrelationOperator_ctor 7)
         < m_MTime (snd (SetBandPassControlPoints
                           (Finite (5/100), Finite (1/10), Finite (5/10), Finite (9/10))
                           (PhaseCorrelationOperator_ctor 7)))"
  by (simp add: SetBandPassControlPoints_def PhaseCorrelationOperator_ctor_def
        ArrayNotEqual_def FloatEqual_def)

section \<open>Independence of the split\<close>

text \<open>
  Claim C8: the value written at an index is the kernel's value, a function of the
  four stored numbers, the size and start index of the output, the index and the two
  input samples at that index; so for any two splits of one output region into
  sub-regions, evaluated in the order of their lists, the outputs are equal.
\<close>

theorem GenerateRegions_split_independent:
  assumes "SplitsRegion region parts1" and "SplitsRegion region parts2"
  shows "GenerateRegions points fixed moving parts1 outp
           = GenerateRegions points fixed moving parts2 outp
         \<and> (\<forall>ind \<in> set (RegionIndices region).
              Pixel (GenerateRegions points fixed moving parts1 outp) ind
                = Kernel points
                    (GetSize (GetLargestPossibleRegion outp))
                    (GetIndex (GetLargestPossibleRegion outp)) ind
                    (Pixel fixed ind) (Pixel moving ind))"
proof -
  have s1: "set (concat (map RegionIndices parts1)) = set (RegionIndices region)"
    using assms(1) by (simp add: SplitsRegion_def)
  have s2: "set (concat (map RegionIndices parts2)) = set (RegionIndices region)"
    using assms(2) by (simp add: SplitsRegion_def)
  show ?thesis
    by (simp only: GenerateRegions_eq s1 s2) simp
qed

theorem GenerateRegions_split_independent_witness:
  "SplitsRegion \<lparr> GetIndex = [0, 0], GetSize = [2, 2] \<rparr>
     [\<lparr> GetIndex = [0, 0], GetSize = [2, 1] \<rparr>, \<lparr> GetIndex = [0, 1], GetSize = [2, 1] \<rparr>]
   \<and> SplitsRegion \<lparr> GetIndex = [0, 0], GetSize = [2, 2] \<rparr>
     [\<lparr> GetIndex = [1, 0], GetSize = [1, 2] \<rparr>, \<lparr> GetIndex = [0, 0], GetSize = [1, 2] \<rparr>]
   \<and> GenerateRegions (5/100, 1/10, 5/10, 9/10)
        \<lparr> GetSpacing = [1, 1],
          GetLargestPossibleRegion = \<lparr> GetIndex = [0, 0], GetSize = [2, 2] \<rparr>,
          Pixel = (\<lambda>i. Complex 1 0) \<rparr>
        \<lparr> GetSpacing = [1, 1],
          GetLargestPossibleRegion = \<lparr> GetIndex = [0, 0], GetSize = [2, 2] \<rparr>,
          Pixel = (\<lambda>i. Complex 0 1) \<rparr>
        [\<lparr> GetIndex = [0, 0], GetSize = [2, 1] \<rparr>, \<lparr> GetIndex = [0, 1], GetSize = [2, 1] \<rparr>]
        \<lparr> GetSpacing = [1, 1],
          GetLargestPossibleRegion = \<lparr> GetIndex = [0, 0], GetSize = [2, 2] \<rparr>,
          Pixel = (\<lambda>i. Complex 0 0) \<rparr>
     = GenerateRegions (5/100, 1/10, 5/10, 9/10)
        \<lparr> GetSpacing = [1, 1],
          GetLargestPossibleRegion = \<lparr> GetIndex = [0, 0], GetSize = [2, 2] \<rparr>,
          Pixel = (\<lambda>i. Complex 1 0) \<rparr>
        \<lparr> GetSpacing = [1, 1],
          GetLargestPossibleRegion = \<lparr> GetIndex = [0, 0], GetSize = [2, 2] \<rparr>,
          Pixel = (\<lambda>i. Complex 0 1) \<rparr>
        [\<lparr> GetIndex = [1, 0], GetSize = [1, 2] \<rparr>, \<lparr> GetIndex = [0, 0], GetSize = [1, 2] \<rparr>]
        \<lparr> GetSpacing = [1, 1],
          GetLargestPossibleRegion = \<lparr> GetIndex = [0, 0], GetSize = [2, 2] \<rparr>,
          Pixel = (\<lambda>i. Complex 0 0) \<rparr>"
proof -
  have p1: "SplitsRegion \<lparr> GetIndex = [0, 0], GetSize = [2, 2] \<rparr>
     [\<lparr> GetIndex = [0, 0], GetSize = [2, 1] \<rparr>, \<lparr> GetIndex = [0, 1], GetSize = [2, 1] \<rparr>]"
    by code_simp
  have p2: "SplitsRegion \<lparr> GetIndex = [0, 0], GetSize = [2, 2] \<rparr>
     [\<lparr> GetIndex = [1, 0], GetSize = [1, 2] \<rparr>, \<lparr> GetIndex = [0, 0], GetSize = [1, 2] \<rparr>]"
    by code_simp
  show ?thesis using p1 p2 GenerateRegions_split_independent [OF p1 p2] by blast
qed

end
